theory Spec2Isabelle
  imports Main
begin

section \<open>Errors raised by the library\<close>

text \<open>
  Every \<^verbatim>\<open>throw new Error(...)\<close> of the sources is a constructor of this type; an
  exception coming out of an external collaborator (the ABI codec, the RPC client) is
  \<open>Collaborator\<close> with its message.
\<close>

datatype error =
    CannotFindTransaction
  | TransactionProcessError
  | UnknownMethodToCall string
  | UnknownMethodToSend string
  | CannotSendToConstant string
  | Collaborator string

section \<open>TxReceiptPromise.confirm\<close>

text \<open>
  A transaction receipt, as far as \<^verbatim>\<open>confirm\<close> reads it. \<open>status\<close> is \<open>None\<close> when the
  field is null or undefined, and otherwise holds \<^verbatim>\<open>Number(receipt.status)\<close>;
  \<open>blockNumber\<close> holds \<^verbatim>\<open>Number(receipt.blockNumber)\<close>.
\<close>

record receipt =
  status :: "int option"
  blockNumber :: int

text \<open>
  What the RPC client does in one turn of the loop. The turn awaits
  \<^verbatim>\<open>getTransactionReceipt\<close> and then \<^verbatim>\<open>getBlockNumber\<close>, with no \<^verbatim>\<open>try\<close> around them:
  either both answer (a receipt or null, and the chain head), or the first is rejected
  with a message, or the first answers and the second is rejected.
\<close>

datatype turn =
    Answered "receipt option" int
  | ReceiptRejected string
  | BlockNumberRejected "receipt option" string

text \<open>
  One turn of the \<^verbatim>\<open>while (true)\<close> loop either goes to sleep and continues (with the
  new value of \<^verbatim>\<open>prevConfirmationCounter\<close> and the number of times the \<^verbatim>\<open>confirm\<close>
  event was emitted in this turn), returns the receipt, or throws.
\<close>

datatype poll = Sleep int nat | Return receipt | Throw error

text \<open>
  \<^verbatim>\<open>for (let i = 0; i < confirmationCount; i++) { this._emitter.emit(EVENT_CONFIRM, tx, receipt) }\<close>.
  The listeners registered with \<^verbatim>\<open>onConfirm\<close> are the caller's code: \<open>listener k r\<close> tells
  what they do at the emission number \<open>k\<close> of this call of \<^verbatim>\<open>confirm\<close> (counted from 0)
  when handed the receipt \<open>r\<close>: they return (\<open>None\<close>), or one of them throws. An
  exception leaves \<^verbatim>\<open>emit\<close> and the loop.
\<close>

fun emit_confirm :: "(nat \<Rightarrow> receipt \<Rightarrow> string option) \<Rightarrow> nat \<Rightarrow> receipt \<Rightarrow> nat \<Rightarrow> string option" where
  "emit_confirm listener emitted r 0 = None"
| "emit_confirm listener emitted r (Suc n) =
     (case listener emitted r of
        Some msg \<Rightarrow> Some msg
      | None \<Rightarrow> emit_confirm listener (Suc emitted) r n)"

text \<open>
  The body of the loop. \<open>failed\<close> is the constant \<^verbatim>\<open>TRANSACTION_STATUS.FAILED\<close>, declared
  in a module that is not part of the sources at hand; \<open>target\<close> is the parameter
  \<^verbatim>\<open>confirm\<close>; \<open>emitted\<close> counts the emissions of the earlier turns. The \<^verbatim>\<open>for\<close> loop runs
  \<^verbatim>\<open>confirmationCount\<close> times when that is positive and not at all otherwise.
\<close>

definition confirm_poll ::
  "int \<Rightarrow> int \<Rightarrow> (nat \<Rightarrow> receipt \<Rightarrow> string option) \<Rightarrow> nat \<Rightarrow> int \<Rightarrow> turn \<Rightarrow> poll" where
  "confirm_poll failed target listener emitted prevConfirmationCounter t =
     (case t of
        ReceiptRejected msg \<Rightarrow> Throw (Collaborator msg)
      | BlockNumberRejected receipt msg \<Rightarrow> Throw (Collaborator msg)
      | Answered None currentBlockNumber \<Rightarrow> Sleep prevConfirmationCounter 0
      | Answered (Some r) currentBlockNumber \<Rightarrow>
          if status r \<noteq> None \<and> status r = Some failed then Throw TransactionProcessError
          else
            let confirmationCounter = currentBlockNumber - blockNumber r in
            if confirmationCounter = 0 \<and> target > 0 then Sleep prevConfirmationCounter 0
            else if confirmationCounter < target then
              (let confirmationCount =
                     (if confirmationCounter \<noteq> prevConfirmationCounter
                      then confirmationCounter - prevConfirmationCounter else 1);
                   prev' =
                     (if confirmationCounter \<noteq> prevConfirmationCounter
                      then confirmationCount else prevConfirmationCounter)
               in case emit_confirm listener emitted r (nat confirmationCount) of
                    Some msg \<Rightarrow> Throw (Collaborator msg)
                  | None \<Rightarrow> Sleep prev' (nat confirmationCount))
            else Return r)"

text \<open>
  The loop itself runs for as long as the chain answers. It is driven here by the list
  of its turns; when the list ends with the loop still waiting, the outcome is
  \<open>Polling\<close> with the current \<^verbatim>\<open>prevConfirmationCounter\<close>. The second component lists, for
  every turn that went to sleep, how many times the \<^verbatim>\<open>confirm\<close> event was emitted in it.
\<close>

datatype outcome = Returned receipt | Thrown error | Polling int

fun confirm_loop ::
  "int \<Rightarrow> int \<Rightarrow> (nat \<Rightarrow> receipt \<Rightarrow> string option) \<Rightarrow> nat \<Rightarrow> int \<Rightarrow> turn list \<Rightarrow> outcome \<times> nat list" where
  "confirm_loop failed target listener emitted prev [] = (Polling prev, [])"
| "confirm_loop failed target listener emitted prev (t # rest) =
     (case confirm_poll failed target listener emitted prev t of
        Sleep prev' n \<Rightarrow>
          (case confirm_loop failed target listener (emitted + n) prev' rest of
             (out, ns) \<Rightarrow> (out, n # ns))
      | Return r \<Rightarrow> (Returned r, [])
      | Throw e \<Rightarrow> (Thrown e, []))"

text \<open>
  \<^verbatim>\<open>confirm\<close>: the transaction is looked up first, and \<open>tx\<close> is the outcome of
  \<^verbatim>\<open>await rpc.getTransaction(this.txid)\<close>: rejected with a message, or answered, with a
  transaction (\<open>True\<close>) or with null. Then the loop starts with
  \<^verbatim>\<open>prevConfirmationCounter = 0\<close>.
\<close>

definition confirm ::
  "int \<Rightarrow> (nat \<Rightarrow> receipt \<Rightarrow> string option) \<Rightarrow> string + bool \<Rightarrow> int \<Rightarrow> turn list \<Rightarrow> outcome \<times> nat list" where
  "confirm failed listener tx target turns =
     (case tx of
        Inl msg \<Rightarrow> (Thrown (Collaborator msg), [])
      | Inr found \<Rightarrow>
          if \<not> found then (Thrown CannotFindTransaction, [])
          else confirm_loop failed target listener 0 0 turns)"

section \<open>ABI methods, values and the external collaborators\<close>

text \<open>
  JavaScript values handed to and returned by contract methods, as far as their shape
  matters: numbers, strings, big integers, arrays and \<^verbatim>\<open>undefined\<close>.
\<close>

datatype jsval = VNum int | VStr string | VBig int | VArr "jsval list" | VUndefined

text \<open>
  Declared Solidity types, by the four classes the method resolver tells apart. Integer
  and string/bytes types carry their name as it is written in a signature.
\<close>

datatype soltype = IntegerT string | StringT string | AddressT | ArrayT soltype

record abi_param =
  pname :: string
  ptype :: soltype

record abimethod =
  name :: string
  inputs :: "abi_param list"
  outputs :: "abi_param list"
  isConstant :: bool

type_synonym opts = "(string \<times> string) list"

text \<open>The request object \<^verbatim>\<open>{...opts, to: this.address, data: calldata}\<close>.\<close>

record request =
  req_opts :: opts
  to :: string
  data :: string

type_synonym transaction = "(string \<times> string) list"

text \<open>
  What a function did to its collaborators, in the order it did it: calls of the ABI
  codec (\<^verbatim>\<open>encodeMethod\<close>, \<^verbatim>\<open>decodeParams\<close>) and of the RPC client.
\<close>

datatype effect =
    Encoded abimethod "jsval list"
  | Decoded "soltype list" string
  | RpcCall request
  | RpcSendTransaction request
  | RpcGetTransaction string

text \<open>
  The collaborators themselves are outside the sources: the ABI codec of the library
  \<^verbatim>\<open>ethjs-abi\<close> and the RPC client. Each is a function from its arguments to its answer
  or to the exception it throws. \<^verbatim>\<open>decodeParams\<close> answers with an object holding the
  decoded values under the indices \<open>0, 1, \<dots>\<close>; it is the list of these values.
\<close>

record world =
  encodeMethod :: "abimethod \<Rightarrow> jsval list \<Rightarrow> error + string"
  decodeParams :: "soltype list \<Rightarrow> string \<Rightarrow> error + jsval list"
  rpc_call :: "request \<Rightarrow> error + string"
  rpc_sendTransaction :: "request \<Rightarrow> error + string"
  rpc_getTransaction :: "string \<Rightarrow> error + transaction option"

section \<open>Decoding: decodeOutputs and ContractLogDecoder\<close>

text \<open>
  \<^verbatim>\<open>decodeOutputs\<close>: the object \<^verbatim>\<open>{length: types.length, ...decodeParams([], types, outputData)}\<close>
  turned into an array by \<^verbatim>\<open>Array.from\<close>: as many elements as declared outputs, a missing
  index reading as \<^verbatim>\<open>undefined\<close>.
\<close>

definition decodeOutputs :: "world \<Rightarrow> abimethod \<Rightarrow> string \<Rightarrow> (error + jsval list) \<times> effect list" where
  "decodeOutputs w m outputData =
     (let types = map ptype (outputs m) in
      case decodeParams w types outputData of
        Inl e \<Rightarrow> (Inl e, [Decoded types outputData])
      | Inr vs \<Rightarrow>
          (Inr (map (\<lambda>i. if i < length vs then vs ! i else VUndefined) [0..<length types]),
           [Decoded types outputData]))"

text \<open>A raw log entry as the RPC client returns it, and a log parsed by the ABI codec.\<close>

record rawlog =
  log_address :: string
  topics :: "string list"
  log_data :: string
  logBlockNumber :: int
  transactionHash :: string

record parsedlog =
  eventName :: string
  params :: "(string \<times> jsval) list"

text \<open>
  \<^verbatim>\<open>IContractEventLog\<close>: the raw entry extended by the field \<^verbatim>\<open>event\<close>, which is null when
  no ABI definition is found.
\<close>

record contract_event_log = rawlog +
  event :: "parsedlog option"

text \<open>
  The function \<^verbatim>\<open>logDecoder(abi, true)\<close> of \<^verbatim>\<open>ethjs-abi\<close>, which the constructor of
  \<^verbatim>\<open>ContractLogDecoder\<close> stores in \<^verbatim>\<open>_decoder\<close>: it takes log items and answers with the
  parsed logs of those it knows an event definition for, or throws.
\<close>

type_synonym log_decoder = "rawlog list \<Rightarrow> error + parsedlog list"

definition decode :: "log_decoder \<Rightarrow> rawlog \<Rightarrow> error + parsedlog option" where
  "decode decoder rawlog =
     (case decoder [rawlog] of
        Inl e \<Rightarrow> Inl e
      | Inr result \<Rightarrow> (if length result = 0 then Inr None else Inr (Some (result ! 0))))"

text \<open>
  The \<^verbatim>\<open>result.map((entry) => ...)\<close> of both \<^verbatim>\<open>getLogs\<close>: every entry is decoded in turn
  and extended by the outcome; an exception of the decoder ends the map.
\<close>

fun decode_entries :: "log_decoder \<Rightarrow> rawlog list \<Rightarrow> error + contract_event_log list" where
  "decode_entries decoder [] = Inr []"
| "decode_entries decoder (entry # result) =
     (case decode decoder entry of
        Inl e \<Rightarrow> Inl e
      | Inr parsedLog \<Rightarrow>
          (case decode_entries decoder result of
             Inl e \<Rightarrow> Inl e
           | Inr entries \<Rightarrow> Inr (rawlog.extend entry \<lparr>event = parsedLog\<rparr> # entries)))"

section \<open>Contract\<close>

text \<open>
  A block position of a log request: a height or one of the symbolic tags of the RPC
  interface (\<^verbatim>\<open>"latest"\<close> and the like, none of which reads as a number).
\<close>

datatype blocktag = Height int | Tag string

record logs_request =
  opt_fromBlock :: "blocktag option"
  opt_toBlock :: "blocktag option"
  opt_address :: "string option"

text \<open>
  A contract handle: its address, its method map and its log decoder. The module
  \<^verbatim>\<open>./MethodMap\<close> is not among the sources, so \<^verbatim>\<open>methodMap.findMethod\<close> is a field here: it
  answers with a method definition, with nothing (null or undefined), or throws.
\<close>

record contract =
  address :: string
  findMethod :: "string \<Rightarrow> jsval list \<Rightarrow> error + abimethod option"
  logDecoder :: log_decoder

definition encodeInputs :: "world \<Rightarrow> abimethod \<Rightarrow> jsval list \<Rightarrow> (error + string) \<times> effect list" where
  "encodeInputs w m args = (encodeMethod w m args, [Encoded m args])"

definition encodeParams :: "contract \<Rightarrow> world \<Rightarrow> string \<Rightarrow> jsval list \<Rightarrow> (error + string) \<times> effect list" where
  "encodeParams c w method args =
     (case findMethod c method args of
        Inl e \<Rightarrow> (Inl e, [])
      | Inr None \<Rightarrow> (Inl (UnknownMethodToCall method), [])
      | Inr (Some methodABI) \<Rightarrow> encodeInputs w methodABI args)"

definition rawCall :: "contract \<Rightarrow> world \<Rightarrow> string \<Rightarrow> jsval list \<Rightarrow> opts \<Rightarrow> (error + string) \<times> effect list" where
  "rawCall c w method args opts =
     (case encodeParams c w method args of
        (Inl e, t) \<Rightarrow> (Inl e, t)
      | (Inr calldata, t) \<Rightarrow>
          (let req = \<lparr>req_opts = opts, to = address c, data = calldata\<rparr>
           in (rpc_call w req, t @ [RpcCall req])))"

text \<open>
  \<^verbatim>\<open>call\<close>. The second \<^verbatim>\<open>findMethod\<close> is asserted non-null in the source; were it null, reading
  \<^verbatim>\<open>method.outputs\<close> would throw a TypeError.
\<close>

definition call :: "contract \<Rightarrow> world \<Rightarrow> string \<Rightarrow> jsval list \<Rightarrow> opts \<Rightarrow> (error + jsval list) \<times> effect list" where
  "call c w method args opts =
     (case rawCall c w method args opts of
        (Inl e, t) \<Rightarrow> (Inl e, t)
      | (Inr output, t) \<Rightarrow>
          if output \<noteq> [] then
            (case findMethod c method args of
               Inl e \<Rightarrow> (Inl e, t)
             | Inr None \<Rightarrow> (Inl (Collaborator ''TypeError''), t)
             | Inr (Some methodABI) \<Rightarrow>
                 (case decodeOutputs w methodABI output of (r, t') \<Rightarrow> (r, t @ t')))
          else (Inr [], t))"

definition rawSend :: "contract \<Rightarrow> world \<Rightarrow> string \<Rightarrow> jsval list \<Rightarrow> opts \<Rightarrow> (error + string) \<times> effect list" where
  "rawSend c w method args opts =
     (case findMethod c method args of
        Inl e \<Rightarrow> (Inl e, [])
      | Inr None \<Rightarrow> (Inl (UnknownMethodToSend method), [])
      | Inr (Some methodABI) \<Rightarrow>
          if isConstant methodABI then (Inl (CannotSendToConstant method), [])
          else
            (case encodeInputs w methodABI args of
               (Inl e, t) \<Rightarrow> (Inl e, t)
             | (Inr calldata, t) \<Rightarrow>
                 (let req = \<lparr>req_opts = opts, to = address c, data = calldata\<rparr>
                  in (rpc_sendTransaction w req, t @ [RpcSendTransaction req]))))"

text \<open>
  The result of \<^verbatim>\<open>send\<close>: the fields of the transaction (none when \<^verbatim>\<open>getTransaction\<close>
  answered null), the transaction id and the method name (the field \<^verbatim>\<open>method\<close>). Its \<^verbatim>\<open>confirm\<close> function is
  \<^verbatim>\<open>Contract.confirm\<close> bound to the transaction id.
\<close>

record send_result =
  tx_fields :: "transaction option"
  txid :: string
  methodName :: string

definition send :: "contract \<Rightarrow> world \<Rightarrow> string \<Rightarrow> jsval list \<Rightarrow> opts \<Rightarrow> (error + send_result) \<times> effect list" where
  "send c w meth args opts =
     (case findMethod c meth args of
        Inl e \<Rightarrow> (Inl e, [])
      | Inr None \<Rightarrow> (Inl (UnknownMethodToSend meth), [])
      | Inr (Some methodABI) \<Rightarrow>
          if isConstant methodABI then (Inl (CannotSendToConstant meth), [])
          else
            (case encodeInputs w methodABI args of
               (Inl e, t) \<Rightarrow> (Inl e, t)
             | (Inr calldata, t) \<Rightarrow>
                 (let req = \<lparr>req_opts = opts, to = address c, data = calldata\<rparr> in
                  case rpc_sendTransaction w req of
                    Inl e \<Rightarrow> (Inl e, t @ [RpcSendTransaction req])
                  | Inr sent \<Rightarrow>
                      (case rpc_getTransaction w sent of
                         Inl e \<Rightarrow> (Inl e, t @ [RpcSendTransaction req, RpcGetTransaction sent])
                       | Inr tx \<Rightarrow>
                           (Inr \<lparr>tx_fields = tx, txid = sent, methodName = meth\<rparr>,
                            t @ [RpcSendTransaction req, RpcGetTransaction sent])))))"

text \<open>
  \<^verbatim>\<open>Contract.getLogs\<close> asks the RPC client with the contract's address put into the
  request, \<^verbatim>\<open>EventListener.getLogs\<close> with the request as it is; \<open>rpc_getLogs\<close> is the
  client's answer. Both then decode every entry.
\<close>

definition Contract_getLogs ::
  "contract \<Rightarrow> (logs_request \<Rightarrow> error + rawlog list) \<Rightarrow> logs_request \<Rightarrow> error + contract_event_log list" where
  "Contract_getLogs c rpc_getLogs req =
     (case rpc_getLogs (req\<lparr>opt_address := Some (address c)\<rparr>) of
        Inl e \<Rightarrow> Inl e
      | Inr result \<Rightarrow> decode_entries (logDecoder c) result)"

definition EventListener_getLogs ::
  "log_decoder \<Rightarrow> (logs_request \<Rightarrow> error + rawlog list) \<Rightarrow> logs_request \<Rightarrow> error + contract_event_log list" where
  "EventListener_getLogs decoder rpc_getLogs req =
     (case rpc_getLogs req of
        Inl e \<Rightarrow> Inl e
      | Inr result \<Rightarrow> decode_entries decoder result)"

section \<open>The subscription loop of onLog\<close>

text \<open>
  \<^verbatim>\<open>Contract.onLog\<close> and \<^verbatim>\<open>EventListener.onLog\<close> run the same loop over the same local
  variables. The loop is an asynchronous function: it runs until it awaits an answer
  (of \<^verbatim>\<open>getBlockNumber\<close>, of \<^verbatim>\<open>sleep\<close>, of \<^verbatim>\<open>getLogs\<close>) and goes on when the answer is
  there; in between, the caller may invoke the cancel function. The state below holds
  the local variables, the place where the loop is waiting, and what the loop has done
  so far: the windows it asked \<^verbatim>\<open>getLogs\<close> for, and the entries it handed to the callback
  \<^verbatim>\<open>fn\<close>, each with the value \<^verbatim>\<open>canceled\<close> had at that moment.
\<close>

datatype place = AwaitBlockNumber | AwaitSleep | AwaitLogs | Stopped | Crashed

record 'e onlog_state =
  fromBlock :: blocktag
  toBlock :: blocktag
  canceled :: bool
  latestBlockNum :: "int option"
  isFirstFetch :: bool
  fetchToLatest :: bool
  at :: place
  fetches :: "(blocktag \<times> blocktag) list"
  delivered :: "('e \<times> bool) list"

text \<open>
  What happens to a waiting loop: the block number arrives, the sleep ends, the logs
  arrive, the awaited RPC promise is rejected, or the cancel function is invoked.
\<close>

datatype 'e event = BlockNumber int | Woke | Logs "'e list" | Rejected | Cancel

text \<open>
  \<^verbatim>\<open>opts.fromBlock || "latest"\<close>: the default is taken when the option is absent and also
  when it is falsy, which the number \<open>0\<close> and the empty string are.
\<close>

definition or_latest :: "blocktag option \<Rightarrow> blocktag" where
  "or_latest x =
     (case x of
        None \<Rightarrow> Tag ''latest''
      | Some (Height n) \<Rightarrow> if n = 0 then Tag ''latest'' else Height n
      | Some (Tag t) \<Rightarrow> if t = [] then Tag ''latest'' else Tag t)"

text \<open>
  \<^verbatim>\<open>fromBlock > toBlock\<close> and \<^verbatim>\<open>fromBlock === toBlock\<close> with a number on the left, which
  \<^verbatim>\<open>fromBlock\<close> is at that point: against a symbolic tag the first compares with NaN and
  the second compares a number with a string, so both are false.
\<close>

definition js_gt :: "int \<Rightarrow> blocktag \<Rightarrow> bool" where
  "js_gt a b = (case b of Height n \<Rightarrow> a > n | Tag t \<Rightarrow> False)"

definition js_eq :: "int \<Rightarrow> blocktag \<Rightarrow> bool" where
  "js_eq a b = (case b of Height n \<Rightarrow> a = n | Tag t \<Rightarrow> False)"

text \<open>
  The state in which \<^verbatim>\<open>onLog\<close> returns the cancel function: the variables are
  initialised, \<^verbatim>\<open>loop()\<close> has been called and has run into its first
  \<^verbatim>\<open>await this.rpc.getBlockNumber()\<close>.
\<close>

definition onLog :: "logs_request \<Rightarrow> 'e onlog_state" where
  "onLog opts =
     (let fromBlock0 = or_latest (opt_fromBlock opts);
          toBlock0 = or_latest (opt_toBlock opts)
      in \<lparr>fromBlock = fromBlock0, toBlock = toBlock0, canceled = False,
          latestBlockNum = None, isFirstFetch = True,
          fetchToLatest = (case fromBlock0 of Height n \<Rightarrow> False | Tag t \<Rightarrow> True),
          at = AwaitBlockNumber, fetches = [], delivered = []\<rparr>)"

text \<open>The test \<^verbatim>\<open>while (!canceled)\<close> at the head of the loop.\<close>

definition loop_head :: "'e onlog_state \<Rightarrow> 'e onlog_state" where
  "loop_head s = (if canceled s then s\<lparr>at := Stopped\<rparr> else s\<lparr>at := AwaitBlockNumber\<rparr>)"

text \<open>
  The callback \<^verbatim>\<open>fn\<close> is the caller's code. Handed an entry it may invoke the cancel
  function, as the test of \<^verbatim>\<open>EventListener\<close> does, and it may throw.
\<close>

datatype reaction = Reaction (cancels: bool) (throws: bool)

text \<open>
  \<^verbatim>\<open>for (const entry of result) { fn(entry) }\<close>: every entry is handed to the callback
  in turn; an exception of the callback ends the \<^verbatim>\<open>for\<close> (and the loop), which the second
  component tells.
\<close>

fun deliver :: "('e \<Rightarrow> reaction) \<Rightarrow> 'e list \<Rightarrow> 'e onlog_state \<Rightarrow> 'e onlog_state \<times> bool" where
  "deliver fn [] s = (s, False)"
| "deliver fn (entry # result) s =
     (let s1 = s\<lparr>delivered := delivered s @ [(entry, canceled s)],
                 canceled := canceled s \<or> cancels (fn entry)\<rparr>
      in if throws (fn entry) then (s1, True) else deliver fn result s1)"

text \<open>
  One step of the loop, from the answer it was waiting for to its next \<^verbatim>\<open>await\<close> (or to
  its end). An answer the loop is not waiting for is no step (\<open>None\<close>). The cancel
  function only sets the flag. (The cancel function of \<^verbatim>\<open>EventListener.onLog\<close> also calls
  the \<^verbatim>\<open>cancel\<close> of the pending \<^verbatim>\<open>getLogs\<close> promise when there is one; that acts on the RPC
  client, not on the variables of the loop.) A rejected \<^verbatim>\<open>getBlockNumber\<close> or \<^verbatim>\<open>getLogs\<close>
  and an exception of the callback end the loop, which has no \<^verbatim>\<open>try\<close>: it is \<open>Crashed\<close>.
\<close>

definition onLog_step :: "('e \<Rightarrow> reaction) \<Rightarrow> 'e onlog_state \<Rightarrow> 'e event \<Rightarrow> 'e onlog_state option" where
  "onLog_step fn s ev =
     (case ev of
        Cancel \<Rightarrow> Some (s\<lparr>canceled := True\<rparr>)
      | Rejected \<Rightarrow>
          if at s = AwaitBlockNumber \<or> at s = AwaitLogs then Some (s\<lparr>at := Crashed\<rparr>) else None
      | Woke \<Rightarrow> if at s = AwaitSleep then Some (loop_head s) else None
      | BlockNumber n \<Rightarrow>
          if at s \<noteq> AwaitBlockNumber then None
          else
            let fb = (case fromBlock s of Height h \<Rightarrow> h | Tag t \<Rightarrow> n);
                tb = (if fetchToLatest s then Height n else toBlock s);
                s1 = s\<lparr>latestBlockNum := Some n, fromBlock := Height fb, toBlock := tb\<rparr>
            in if js_gt fb tb \<or> (\<not> isFirstFetch s \<and> js_eq fb tb)
               then Some (s1\<lparr>at := AwaitSleep\<rparr>)
               else Some (s1\<lparr>isFirstFetch := False,
                             fetches := fetches s @ [(Height fb, tb)],
                             at := AwaitLogs\<rparr>)
      | Logs result \<Rightarrow>
          if at s \<noteq> AwaitLogs then None
          else
            (case latestBlockNum s of
               None \<Rightarrow> None
             | Some n \<Rightarrow>
                 (case deliver fn result s of
                    (s1, threw) \<Rightarrow>
                      if threw then Some (s1\<lparr>at := Crashed\<rparr>)
                      else Some (loop_head (s1\<lparr>fromBlock := Height (n + 1)\<rparr>)))))"

fun onLog_run :: "('e \<Rightarrow> reaction) \<Rightarrow> 'e onlog_state \<Rightarrow> 'e event list \<Rightarrow> 'e onlog_state option" where
  "onLog_run fn s [] = Some s"
| "onLog_run fn s (ev # evs) =
     (case onLog_step fn s ev of
        None \<Rightarrow> None
      | Some s' \<Rightarrow> onLog_run fn s' evs)"

section \<open>The method resolver\<close>

text \<open>
  The module \<^verbatim>\<open>./MethodMap\<close>, whose \<^verbatim>\<open>findMethod\<close> resolves a method name and an argument
  list to a method definition, is not among the sources. The definitions of this
  section follow the description of the method resolver in the specification.
\<close>










section \<open>Test fixtures\<close>

text \<open>
  The contract \<^verbatim>\<open>Methods\<close> of the test suite, with a constant \<^verbatim>\<open>getFoo\<close> and a
  state-changing \<^verbatim>\<open>setFoo\<close>, and collaborators that answer every request.
\<close>

definition getFoo :: abimethod where
  "getFoo = \<lparr>name = ''getFoo'', inputs = [],
     outputs = [\<lparr>pname = [], ptype = IntegerT ''uint256''\<rparr>], isConstant = True\<rparr>"

definition setFoo :: abimethod where
  "setFoo = \<lparr>name = ''setFoo'', inputs = [\<lparr>pname = ''foo'', ptype = IntegerT ''uint256''\<rparr>],
     outputs = [], isConstant = False\<rparr>"

text \<open>A log decoder that knows the single event whose topic is \<^verbatim>\<open>0xf00\<close>.\<close>

definition foo_decoder :: log_decoder where
  "foo_decoder logItems =
     Inr (map (\<lambda>l. \<lparr>eventName = ''FooEvent'', params = [(''data'', VStr (log_data l))]\<rparr>)
            (filter (\<lambda>l. take 1 (topics l) = [''0xf00'']) logItems))"

definition Methods :: contract where
  "Methods =
     \<lparr>address = ''0xabc'',
      findMethod = (\<lambda>n a. if n = ''getFoo'' \<and> a = [] then Inr (Some getFoo)
                           else if n = ''setFoo'' \<and> length a = 1 then Inr (Some setFoo)
                           else Inr None),
      logDecoder = foo_decoder\<rparr>"

definition test_world :: world where
  "test_world =
     \<lparr>encodeMethod = (\<lambda>m a. Inr (''0x'' @ name m)),
      decodeParams = (\<lambda>ts d. Inr [VBig 7]),
      rpc_call = (\<lambda>r. Inr (if data r = ''0xgetFoo'' then ''0x07'' else [])),
      rpc_sendTransaction = (\<lambda>r. Inr ''0xtx1''),
      rpc_getTransaction = (\<lambda>t. Inr (Some []))\<rparr>"

definition test_log :: "string \<Rightarrow> string \<Rightarrow> rawlog" where
  "test_log topic d =
     \<lparr>log_address = ''0xabc'', topics = [topic], log_data = d, logBlockNumber = 5,
      transactionHash = ''0xtx1''\<rparr>"

section \<open>Properties of the confirmation loop\<close>

lemma confirm_loop_nulls:
  "confirm_loop failed target listener emitted prev (replicate k (Answered None h') @ rest) =
     (case confirm_loop failed target listener emitted prev rest of
        (out, ns) \<Rightarrow> (out, replicate k 0 @ ns))"
  by (induction k) (auto simp: confirm_poll_def split: prod.splits)

lemma confirm_poll_Return:
  "confirm_poll failed target listener emitted prev t = Return q \<Longrightarrow>
     \<exists>h. t = Answered (Some q) h \<and> status q \<noteq> Some failed \<and> blockNumber q + target \<le> h \<and>
       (0 < target \<longrightarrow> blockNumber q < h)"
  by (cases t)
     (auto simp: confirm_poll_def Let_def split: option.splits if_splits)



lemma confirm_loop_Returned:
  "confirm_loop failed target listener emitted prev tr = (Returned q, ns) \<Longrightarrow>
     length ns < length tr \<and>
     (\<exists>h. tr ! length ns = Answered (Some q) h \<and> blockNumber q + target \<le> h) \<and>
     status q \<noteq> Some failed"
proof (induction tr arbitrary: emitted prev ns)
  case Nil
  then show ?case by simp
next
  case (Cons t rest)
  show ?case
  proof (cases "confirm_poll failed target listener emitted prev t")
    case (Sleep p n)
    obtain out ms where
      rec: "confirm_loop failed target listener (emitted + n) p rest = (out, ms)"
      by (cases "confirm_loop failed target listener (emitted + n) p rest")
    with Cons.prems Sleep have "out = Returned q" and ns: "ns = n # ms" by auto
    with rec Cons.IH [of "emitted + n" p ms] show ?thesis by simp
  next
    case (Return r)
    with Cons.prems have "r = q" and "ns = []" by auto
    with Return confirm_poll_Return [of failed target listener emitted prev t q]
    show ?thesis by auto
  next
    case (Throw e)
    with Cons.prems show ?thesis by simp
  qed
qed



subsection \<open>C1: progress callbacks per observed confirmation\<close>

text \<open>
  C1 says that a turn of the loop which sees the confirmation count grown by \<open>k\<close> since
  the previous turn emits the \<^verbatim>\<open>confirm\<close> event exactly \<open>k\<close> times. The loop stores the
  difference, not the count, in \<^verbatim>\<open>prevConfirmationCounter\<close>, so a later difference is
  taken from the wrong value. With a target of 10 confirmations and a receipt mined in block 100,
  the chain head is seen at 101, 104 and 106: the count goes 1, 4, 6. The turns emit
  1, 3 and 3 events; the third turn saw two new confirmations and emitted three times.
\<close>

theorem confirm_emits_1_4_6:
  "confirm 0 (\<lambda>k r. None) (Inr True) 10
     [Answered (Some \<lparr>status = Some 1, blockNumber = 100\<rparr>) 101,
      Answered (Some \<lparr>status = Some 1, blockNumber = 100\<rparr>) 104,
      Answered (Some \<lparr>status = Some 1, blockNumber = 100\<rparr>) 106]
   = (Polling 3, [1, 3, 3])"
  by (simp add: confirm_def confirm_poll_def Let_def numeral_3_eq_3)

subsection \<open>C5: a fresh receipt is not its own confirmation\<close>

text \<open>
  C5: take a receipt mined at height \<open>H\<close>. When at least one confirmation is asked
  for, the turn that sees the receipt with the chain head at \<open>H\<close> goes back to sleep
  without touching the counter, and whenever \<^verbatim>\<open>confirm\<close> returns a receipt, the turn
  that returned it saw the head strictly above the receipt's block (every earlier turn
  went to sleep). When zero confirmations are asked for, the first turn that sees a
  receipt whose block the head has reached returns it at once, however long the
  receipt was missing before.
\<close>

theorem confirm_fresh_receipt:
  "(1 \<le> target \<and> status r \<noteq> Some failed \<longrightarrow>
      confirm_poll failed target listener emitted prev (Answered (Some r) (blockNumber r)) =
        Sleep prev 0) \<and>
   (1 \<le> target \<and> confirm failed listener tx target tr = (Returned q, ns) \<longrightarrow>
      length ns < length tr \<and>
      (\<exists>h. tr ! length ns = Answered (Some q) h \<and> blockNumber q < h)) \<and>
   (status r \<noteq> Some failed \<and> blockNumber r \<le> h \<longrightarrow>
      confirm failed listener (Inr True) 0
        (replicate k (Answered None h') @ Answered (Some r) h # rest) =
        (Returned r, replicate k 0))"
proof (intro conjI impI)
  assume "1 \<le> target \<and> status r \<noteq> Some failed"
  then show "confirm_poll failed target listener emitted prev
      (Answered (Some r) (blockNumber r)) = Sleep prev 0"
    by (simp add: confirm_poll_def)
next
  assume a: "1 \<le> target \<and> confirm failed listener tx target tr = (Returned q, ns)"
  then have "confirm_loop failed target listener 0 0 tr = (Returned q, ns)"
    by (auto simp: confirm_def split: sum.splits if_splits)
  from confirm_loop_Returned [OF this] a
  show "length ns < length tr"
    and "\<exists>h. tr ! length ns = Answered (Some q) h \<and> blockNumber q < h"
    by auto
next
  assume a: "status r \<noteq> Some failed \<and> blockNumber r \<le> h"
  then have "confirm_poll failed 0 listener 0 0 (Answered (Some r) h) = Return r"
    by (auto simp: confirm_poll_def Let_def)
  then show "confirm failed listener (Inr True) 0
      (replicate k (Answered None h') @ Answered (Some r) h # rest) =
      (Returned r, replicate k 0)"
    by (simp add: confirm_def confirm_loop_nulls)
qed

theorem confirm_fresh_receipt_witness:
  "confirm_poll 0 2 (\<lambda>k r. None) 0 0
     (Answered (Some \<lparr>status = Some 1, blockNumber = 100\<rparr>) 100) = Sleep 0 0 \<and>
   confirm 0 (\<lambda>k r. None) (Inr True) 2
     [Answered None 99, Answered (Some \<lparr>status = Some 1, blockNumber = 100\<rparr>) 100,
      Answered (Some \<lparr>status = Some 1, blockNumber = 100\<rparr>) 101,
      Answered (Some \<lparr>status = Some 1, blockNumber = 100\<rparr>) 102]
   = (Returned \<lparr>status = Some 1, blockNumber = 100\<rparr>, [0, 0, 1]) \<and>
   (100::int) < 102 \<and>
   confirm 0 (\<lambda>k r. None) (Inr True) 0
     [Answered None 99, Answered (Some \<lparr>status = Some 1, blockNumber = 100\<rparr>) 100]
   = (Returned \<lparr>status = Some 1, blockNumber = 100\<rparr>, [0])"
proof -
  let ?r = "\<lparr>status = Some 1, blockNumber = 100\<rparr>"
  let ?l = "\<lambda>(k::nat) (r::receipt). None :: string option"
  let ?tr = "[Answered None 99, Answered (Some ?r) 100, Answered (Some ?r) 101,
      Answered (Some ?r) 102]"
  have run: "confirm 0 ?l (Inr True) 2 ?tr = (Returned ?r, [0, 0, 1])"
    by (simp add: confirm_def confirm_poll_def Let_def)
  have "confirm_poll 0 2 ?l 0 0 (Answered (Some ?r) (blockNumber ?r)) = Sleep 0 0"
    using confirm_fresh_receipt [where target = 2 and r = ?r and failed = 0 and prev = 0
      and listener = ?l and emitted = 0] by simp
  moreover have "\<exists>h. ?tr ! length [0::nat, 0, 1] = Answered (Some ?r) h \<and> blockNumber ?r < h"
    using confirm_fresh_receipt [where target = 2 and failed = 0 and tr = ?tr and q = ?r
      and ns = "[0, 0, 1]" and listener = ?l and tx = "Inr True"] run by simp
  moreover have "confirm 0 ?l (Inr True) 0
      (replicate 1 (Answered None 99) @ Answered (Some ?r) 100 # []) =
      (Returned ?r, replicate 1 0)"
    using confirm_fresh_receipt [where r = ?r and failed = 0 and h = 100 and k = 1
      and h' = 99 and rest = "[]" and listener = ?l] by simp
  ultimately show ?thesis using run by simp
qed

subsection \<open>C6: a missing receipt is not an error\<close>




section \<open>Properties of Contract\<close>

lemma encodeParams_trace:
  "x \<in> set (snd (encodeParams c w meth args)) \<Longrightarrow> \<exists>m. x = Encoded m args"
  by (auto simp: encodeParams_def encodeInputs_def split: sum.splits option.splits)

lemma rawCall_trace:
  "x \<in> set (snd (rawCall c w meth args opts)) \<Longrightarrow> (\<exists>m. x = Encoded m args) \<or> (\<exists>r. x = RpcCall r)"
proof (cases "encodeParams c w meth args")
  case (Pair r t)
  assume x: "x \<in> set (snd (rawCall c w meth args opts))"
  show ?thesis
  proof (cases r)
    case (Inl e)
    with Pair x have "x \<in> set (snd (encodeParams c w meth args))"
      by (simp add: rawCall_def)
    then show ?thesis using encodeParams_trace by blast
  next
    case (Inr d)
    with Pair x have "x \<in> set (snd (encodeParams c w meth args)) \<or> (\<exists>r. x = RpcCall r)"
      by (auto simp: rawCall_def Let_def)
    then show ?thesis using encodeParams_trace by blast
  qed
qed

subsection \<open>C7: no transaction is sent to a constant method\<close>

text \<open>
  C7: when the method map resolves the call to a definition marked constant, both
  \<^verbatim>\<open>send\<close> and \<^verbatim>\<open>rawSend\<close> fail with the error for sending to a constant method before
  they touch any collaborator: nothing is encoded and nothing is handed to the RPC
  client. Whenever either of them does hand a transaction to the RPC client, the method
  was resolved and is not constant; and for a resolved method that is not constant and
  whose arguments encode, the transaction is handed over.
\<close>

theorem send_constant_rejected:
  "(findMethod c meth args = Inr (Some m) \<and> isConstant m \<longrightarrow>
      send c w meth args opts = (Inl (CannotSendToConstant meth), []) \<and>
      rawSend c w meth args opts = (Inl (CannotSendToConstant meth), [])) \<and>
   (RpcSendTransaction req \<in> set (snd (send c w meth args opts)) \<longrightarrow>
      (\<exists>m'. findMethod c meth args = Inr (Some m') \<and> \<not> isConstant m')) \<and>
   (RpcSendTransaction req \<in> set (snd (rawSend c w meth args opts)) \<longrightarrow>
      (\<exists>m'. findMethod c meth args = Inr (Some m') \<and> \<not> isConstant m')) \<and>
   (findMethod c meth args = Inr (Some m) \<and> \<not> isConstant m \<and> encodeMethod w m args = Inr d \<longrightarrow>
      RpcSendTransaction \<lparr>req_opts = opts, to = address c, data = d\<rparr>
        \<in> set (snd (send c w meth args opts)) \<and>
      RpcSendTransaction \<lparr>req_opts = opts, to = address c, data = d\<rparr>
        \<in> set (snd (rawSend c w meth args opts)))"
proof (intro conjI impI)
  assume a: "findMethod c meth args = Inr (Some m) \<and> isConstant m"
  then show "send c w meth args opts = (Inl (CannotSendToConstant meth), [])"
    by (simp add: send_def)
  from a show "rawSend c w meth args opts = (Inl (CannotSendToConstant meth), [])"
    by (simp add: rawSend_def)
next
  assume "RpcSendTransaction req \<in> set (snd (send c w meth args opts))"
  then show "\<exists>m'. findMethod c meth args = Inr (Some m') \<and> \<not> isConstant m'"
    by (auto simp: send_def split: sum.splits option.splits if_splits)
next
  assume "RpcSendTransaction req \<in> set (snd (rawSend c w meth args opts))"
  then show "\<exists>m'. findMethod c meth args = Inr (Some m') \<and> \<not> isConstant m'"
    by (auto simp: rawSend_def split: sum.splits option.splits if_splits)
next
  assume a: "findMethod c meth args = Inr (Some m) \<and> \<not> isConstant m \<and>
      encodeMethod w m args = Inr d"
  then show "RpcSendTransaction \<lparr>req_opts = opts, to = address c, data = d\<rparr>
      \<in> set (snd (send c w meth args opts))"
    by (auto simp: send_def encodeInputs_def Let_def split: sum.splits)
  from a show "RpcSendTransaction \<lparr>req_opts = opts, to = address c, data = d\<rparr>
      \<in> set (snd (rawSend c w meth args opts))"
    by (auto simp: rawSend_def encodeInputs_def Let_def split: sum.splits)
qed

theorem send_constant_rejected_witness:
  "send Methods test_world ''getFoo'' [] [] = (Inl (CannotSendToConstant ''getFoo''), []) \<and>
   rawSend Methods test_world ''getFoo'' [] [] = (Inl (CannotSendToConstant ''getFoo''), []) \<and>
   RpcSendTransaction \<lparr>req_opts = [], to = ''0xabc'', data = ''0xsetFoo''\<rparr>
     \<in> set (snd (send Methods test_world ''setFoo'' [VNum 5] [])) \<and>
   (\<exists>m'. findMethod Methods ''setFoo'' [VNum 5] = Inr (Some m') \<and> \<not> isConstant m')"
proof -
  have get: "findMethod Methods ''getFoo'' [] = Inr (Some getFoo) \<and> isConstant getFoo"
    by (simp add: Methods_def getFoo_def)
  have set: "findMethod Methods ''setFoo'' [VNum 5] = Inr (Some setFoo) \<and> \<not> isConstant setFoo \<and>
      encodeMethod test_world setFoo [VNum 5] = Inr ''0xsetFoo''"
    by (simp add: Methods_def setFoo_def test_world_def)
  have addr: "address Methods = ''0xabc''"
    by (simp add: Methods_def)
  have sent: "RpcSendTransaction \<lparr>req_opts = [], to = ''0xabc'', data = ''0xsetFoo''\<rparr>
      \<in> set (snd (send Methods test_world ''setFoo'' [VNum 5] []))"
    using send_constant_rejected [where c = Methods and w = test_world and meth = "''setFoo''"
      and args = "[VNum 5]" and m = setFoo and d = "''0xsetFoo''" and opts = "[]"] set addr
    by simp
  have "\<exists>m'. findMethod Methods ''setFoo'' [VNum 5] = Inr (Some m') \<and> \<not> isConstant m'"
    using send_constant_rejected [where c = Methods and w = test_world and meth = "''setFoo''"
      and args = "[VNum 5]" and opts = "[]"
      and req = "\<lparr>req_opts = [], to = ''0xabc'', data = ''0xsetFoo''\<rparr>"] sent
    by blast
  moreover have "send Methods test_world ''getFoo'' [] [] = (Inl (CannotSendToConstant ''getFoo''), []) \<and>
      rawSend Methods test_world ''getFoo'' [] [] = (Inl (CannotSendToConstant ''getFoo''), [])"
    using send_constant_rejected [where c = Methods and meth = "''getFoo''" and args = "[]"
      and m = getFoo] get
    by blast
  ultimately show ?thesis using sent by blast
qed

lemma decodeOutputs_values:
  "decodeOutputs w m out =
     (case decodeParams w (map ptype (outputs m)) out of
        Inl e \<Rightarrow> Inl e
      | Inr vs \<Rightarrow>
          Inr (map (\<lambda>i. if i < length vs then vs ! i else VUndefined) [0..<length (outputs m)]),
      [Decoded (map ptype (outputs m)) out])"
  by (simp add: decodeOutputs_def Let_def split: sum.splits)

lemma pad_exact:
  "length vs = n \<Longrightarrow> map (\<lambda>i. if i < length vs then vs ! i else VUndefined) [0..<n] = vs"
  by (auto intro: nth_equalityI)

subsection \<open>C10: an empty output is not decoded\<close>

text \<open>
  C10: when the RPC call behind \<^verbatim>\<open>call\<close> answers with the empty string, \<^verbatim>\<open>call\<close> answers
  with the empty array, does nothing beyond what \<^verbatim>\<open>rawCall\<close> did and never invokes
  the output decoder. When the answer is a non-empty string, \<^verbatim>\<open>call\<close> invokes the decoder
  once, after the RPC call, on the output types of the method the method map resolved
  and on that string. If the decoder throws, \<^verbatim>\<open>call\<close> fails with its error. If it
  answers with values, \<^verbatim>\<open>call\<close> answers with these values in their order, one per
  declared output (a value the decoder left out reads as \<^verbatim>\<open>undefined\<close>); when the decoder
  gave one value per declared output, \<^verbatim>\<open>call\<close> answers with exactly the decoder's values.
\<close>

theorem call_empty_output:
  "(fst (rawCall c w meth args opts) = Inr [] \<longrightarrow>
      call c w meth args opts = (Inr [], snd (rawCall c w meth args opts)) \<and>
      (\<forall>ts out. Decoded ts out \<notin> set (snd (call c w meth args opts)))) \<and>
   (fst (rawCall c w meth args opts) = Inr out \<and> out \<noteq> [] \<and>
    findMethod c meth args = Inr (Some m) \<longrightarrow>
      call c w meth args opts =
        (fst (decodeOutputs w m out),
         snd (rawCall c w meth args opts) @ snd (decodeOutputs w m out)) \<and>
      snd (call c w meth args opts) =
        snd (rawCall c w meth args opts) @ [Decoded (map ptype (outputs m)) out] \<and>
      (\<forall>e. decodeParams w (map ptype (outputs m)) out = Inl e \<longrightarrow>
         fst (call c w meth args opts) = Inl e) \<and>
      (\<forall>vs. decodeParams w (map ptype (outputs m)) out = Inr vs \<longrightarrow>
         fst (call c w meth args opts) =
           Inr (map (\<lambda>i. if i < length vs then vs ! i else VUndefined)
                  [0..<length (outputs m)]) \<and>
         (length vs = length (outputs m) \<longrightarrow> fst (call c w meth args opts) = Inr vs)))"
proof (intro conjI impI allI)
  assume a: "fst (rawCall c w meth args opts) = Inr []"
  then show r: "call c w meth args opts = (Inr [], snd (rawCall c w meth args opts))"
    by (cases "rawCall c w meth args opts") (simp add: call_def)
  fix ts out
  show "Decoded ts out \<notin> set (snd (call c w meth args opts))"
    using rawCall_trace [of "Decoded ts out" c w meth args opts] by (auto simp: r)
next
  assume a: "fst (rawCall c w meth args opts) = Inr out \<and> out \<noteq> [] \<and>
      findMethod c meth args = Inr (Some m)"
  then show c: "call c w meth args opts =
      (fst (decodeOutputs w m out),
       snd (rawCall c w meth args opts) @ snd (decodeOutputs w m out))"
    by (cases "rawCall c w meth args opts") (simp add: call_def split: prod.splits)
  show "snd (call c w meth args opts) =
      snd (rawCall c w meth args opts) @ [Decoded (map ptype (outputs m)) out]"
    by (simp add: c decodeOutputs_values)
  {
    fix e
    assume "decodeParams w (map ptype (outputs m)) out = Inl e"
    then show "fst (call c w meth args opts) = Inl e"
      by (simp add: c decodeOutputs_values)
  }
  {
    fix vs
    assume d: "decodeParams w (map ptype (outputs m)) out = Inr vs"
    then show v: "fst (call c w meth args opts) =
        Inr (map (\<lambda>i. if i < length vs then vs ! i else VUndefined) [0..<length (outputs m)])"
      by (simp add: c decodeOutputs_values)
    assume len: "length vs = length (outputs m)"
    show "fst (call c w meth args opts) = Inr vs"
      by (simp only: v pad_exact [OF len])
  }
qed

theorem call_empty_output_witness:
  "call Methods test_world ''setFoo'' [VNum 5] [] =
     (Inr [], [Encoded setFoo [VNum 5],
               RpcCall \<lparr>req_opts = [], to = ''0xabc'', data = ''0xsetFoo''\<rparr>]) \<and>
   call Methods test_world ''getFoo'' [] [] =
     (Inr [VBig 7], [Encoded getFoo [],
                     RpcCall \<lparr>req_opts = [], to = ''0xabc'', data = ''0xgetFoo''\<rparr>,
                     Decoded [IntegerT ''uint256''] ''0x07''])"
proof -
  have raw_set: "rawCall Methods test_world ''setFoo'' [VNum 5] [] =
      (Inr [], [Encoded setFoo [VNum 5],
                RpcCall \<lparr>req_opts = [], to = ''0xabc'', data = ''0xsetFoo''\<rparr>])"
    by (simp add: rawCall_def encodeParams_def encodeInputs_def Methods_def test_world_def
        setFoo_def)
  have raw_get: "rawCall Methods test_world ''getFoo'' [] [] =
      (Inr ''0x07'', [Encoded getFoo [],
                RpcCall \<lparr>req_opts = [], to = ''0xabc'', data = ''0xgetFoo''\<rparr>])"
    by (simp add: rawCall_def encodeParams_def encodeInputs_def Methods_def test_world_def
        getFoo_def)
  have types: "map ptype (outputs getFoo) = [IntegerT ''uint256'']"
    by (simp add: getFoo_def)
  have dec: "decodeParams test_world (map ptype (outputs getFoo)) ''0x07'' = Inr [VBig 7]"
    by (simp add: test_world_def)
  have fm: "findMethod Methods ''getFoo'' [] = Inr (Some getFoo)"
    by (simp add: Methods_def)
  have len: "length [VBig 7] = length (outputs getFoo)"
    by (simp add: getFoo_def)
  have pre: "fst (rawCall Methods test_world ''getFoo'' [] []) = Inr ''0x07'' \<and> ''0x07'' \<noteq> [] \<and>
      findMethod Methods ''getFoo'' [] = Inr (Some getFoo)"
    using raw_get fm by simp
  have "call Methods test_world ''setFoo'' [VNum 5] [] =
      (Inr [], snd (rawCall Methods test_world ''setFoo'' [VNum 5] []))"
    using call_empty_output [where c = Methods and w = test_world and meth = "''setFoo''"
      and args = "[VNum 5]" and opts = "[]"] raw_set
    by simp
  moreover have "snd (call Methods test_world ''getFoo'' [] []) =
      snd (rawCall Methods test_world ''getFoo'' [] []) @
        [Decoded (map ptype (outputs getFoo)) ''0x07''] \<and>
      fst (call Methods test_world ''getFoo'' [] []) = Inr [VBig 7]"
    using call_empty_output [where c = Methods and w = test_world and meth = "''getFoo''"
      and args = "[]" and opts = "[]" and out = "''0x07''" and m = getFoo] pre dec len
    by blast
  ultimately show ?thesis by (simp add: raw_set raw_get types prod_eq_iff)
qed

section \<open>Properties of getLogs\<close>

lemma decode_entries_Inr:
  "decode_entries dec raws = Inr es \<Longrightarrow>
     length es = length raws \<and> map rawlog.truncate es = raws \<and>
     (\<forall>i<length raws.
        (dec [raws ! i] = Inr [] \<longrightarrow> event (es ! i) = None) \<and>
        (\<forall>p ps. dec [raws ! i] = Inr (p # ps) \<longrightarrow> event (es ! i) = Some p))"
proof (induction raws arbitrary: es)
  case Nil
  then show ?case by simp
next
  case (Cons entry result)
  from Cons.prems obtain parsedLog entries where
    d: "decode dec entry = Inr parsedLog" and
    r: "decode_entries dec result = Inr entries" and
    es: "es = rawlog.extend entry \<lparr>event = parsedLog\<rparr> # entries"
    by (auto split: sum.splits)
  note ih = Cons.IH [OF r]
  have hd: "rawlog.truncate (rawlog.extend entry \<lparr>event = parsedLog\<rparr>) = entry"
    by (simp add: rawlog.defs)
  have ev: "event (rawlog.extend entry \<lparr>event = parsedLog\<rparr>) = parsedLog"
    by (simp add: rawlog.defs)
  have first: "(dec [entry] = Inr [] \<longrightarrow> parsedLog = None) \<and>
      (\<forall>p ps. dec [entry] = Inr (p # ps) \<longrightarrow> parsedLog = Some p)"
    using d by (auto simp: decode_def split: sum.splits if_splits)
  show ?case
  proof (intro conjI allI impI)
    show "length es = length (entry # result)" using ih es by simp
    show "map rawlog.truncate es = entry # result" using ih es hd by simp
  next
    fix i assume "i < length (entry # result)" and "dec [(entry # result) ! i] = Inr []"
    then show "event (es ! i) = None"
      using ih es ev first by (cases i) auto
  next
    fix i p ps assume "i < length (entry # result)"
      and "dec [(entry # result) ! i] = Inr (p # ps)"
    then show "event (es ! i) = Some p"
      using ih es ev first by (cases i) auto
  qed
qed

lemma decode_entries_Inl:
  "decode_entries dec raws = Inl e \<Longrightarrow> \<exists>r\<in>set raws. dec [r] = Inl e"
  by (induction raws) (auto simp: decode_def split: sum.splits if_splits)

subsection \<open>C8: a log without a known event definition is still delivered\<close>

text \<open>
  C8: when \<^verbatim>\<open>getLogs\<close> (of a contract or of an event listener) answers with entries for
  a batch of raw logs, there is one entry per raw log, in the same order and with the
  raw fields as they were; the entry of a raw log for which the ABI decoder finds no
  event definition (it parses nothing) has a null \<^verbatim>\<open>event\<close>, the entry of any other raw
  log has the first parsed log as its \<^verbatim>\<open>event\<close>. When \<^verbatim>\<open>getLogs\<close> fails after the RPC
  client has answered, the ABI decoder has thrown on one of the raw logs: a log it
  merely does not know never makes the batch fail.
\<close>

theorem getLogs_keeps_unknown_events:
  "(rpc (req\<lparr>opt_address := Some (address c)\<rparr>) = Inr raws \<and>
    Contract_getLogs c rpc req = Inr es \<longrightarrow>
      length es = length raws \<and> map rawlog.truncate es = raws \<and>
      (\<forall>i<length raws.
         (logDecoder c [raws ! i] = Inr [] \<longrightarrow> event (es ! i) = None) \<and>
         (\<forall>p ps. logDecoder c [raws ! i] = Inr (p # ps) \<longrightarrow> event (es ! i) = Some p))) \<and>
   (rpc (req\<lparr>opt_address := Some (address c)\<rparr>) = Inr raws \<and>
    Contract_getLogs c rpc req = Inl e \<longrightarrow>
      (\<exists>r\<in>set raws. logDecoder c [r] = Inl e)) \<and>
   (rpc req = Inr raws \<and> EventListener_getLogs dec rpc req = Inr es \<longrightarrow>
      length es = length raws \<and> map rawlog.truncate es = raws \<and>
      (\<forall>i<length raws.
         (dec [raws ! i] = Inr [] \<longrightarrow> event (es ! i) = None) \<and>
         (\<forall>p ps. dec [raws ! i] = Inr (p # ps) \<longrightarrow> event (es ! i) = Some p))) \<and>
   (rpc req = Inr raws \<and> EventListener_getLogs dec rpc req = Inl e \<longrightarrow>
      (\<exists>r\<in>set raws. dec [r] = Inl e))"
proof (intro conjI impI)
  assume a: "rpc (req\<lparr>opt_address := Some (address c)\<rparr>) = Inr raws \<and>
      Contract_getLogs c rpc req = Inr es"
  then have "decode_entries (logDecoder c) raws = Inr es"
    by (auto simp: Contract_getLogs_def)
  from decode_entries_Inr [OF this]
  show "length es = length raws" and "map rawlog.truncate es = raws"
    and "\<forall>i<length raws.
         (logDecoder c [raws ! i] = Inr [] \<longrightarrow> event (es ! i) = None) \<and>
         (\<forall>p ps. logDecoder c [raws ! i] = Inr (p # ps) \<longrightarrow> event (es ! i) = Some p)"
    by blast+
next
  assume a: "rpc (req\<lparr>opt_address := Some (address c)\<rparr>) = Inr raws \<and>
      Contract_getLogs c rpc req = Inl e"
  then have "decode_entries (logDecoder c) raws = Inl e"
    by (auto simp: Contract_getLogs_def)
  then show "\<exists>r\<in>set raws. logDecoder c [r] = Inl e"
    by (rule decode_entries_Inl)
next
  assume a: "rpc req = Inr raws \<and> EventListener_getLogs dec rpc req = Inr es"
  then have "decode_entries dec raws = Inr es"
    by (auto simp: EventListener_getLogs_def)
  from decode_entries_Inr [OF this]
  show "length es = length raws" and "map rawlog.truncate es = raws"
    and "\<forall>i<length raws.
         (dec [raws ! i] = Inr [] \<longrightarrow> event (es ! i) = None) \<and>
         (\<forall>p ps. dec [raws ! i] = Inr (p # ps) \<longrightarrow> event (es ! i) = Some p)"
    by blast+
next
  assume a: "rpc req = Inr raws \<and> EventListener_getLogs dec rpc req = Inl e"
  then have "decode_entries dec raws = Inl e"
    by (auto simp: EventListener_getLogs_def)
  then show "\<exists>r\<in>set raws. dec [r] = Inl e"
    by (rule decode_entries_Inl)
qed

theorem getLogs_keeps_unknown_events_witness:
  "Contract_getLogs Methods
     (\<lambda>r. Inr [test_log ''0xf00'' ''a'', test_log ''0xba2'' ''b'', test_log ''0xf00'' ''c''])
     \<lparr>opt_fromBlock = None, opt_toBlock = None, opt_address = None\<rparr>
   = Inr [rawlog.extend (test_log ''0xf00'' ''a'')
            \<lparr>event = Some \<lparr>eventName = ''FooEvent'', params = [(''data'', VStr ''a'')]\<rparr>\<rparr>,
          rawlog.extend (test_log ''0xba2'' ''b'') \<lparr>event = None\<rparr>,
          rawlog.extend (test_log ''0xf00'' ''c'')
            \<lparr>event = Some \<lparr>eventName = ''FooEvent'', params = [(''data'', VStr ''c'')]\<rparr>\<rparr>] \<and>
   event (rawlog.extend (test_log ''0xba2'' ''b'') \<lparr>event = None\<rparr>) = None \<and>
   EventListener_getLogs foo_decoder
     (\<lambda>r. Inr [test_log ''0xba2'' ''b'', test_log ''0xf00'' ''c''])
     \<lparr>opt_fromBlock = None, opt_toBlock = None, opt_address = None\<rparr>
   = Inr [rawlog.extend (test_log ''0xba2'' ''b'') \<lparr>event = None\<rparr>,
          rawlog.extend (test_log ''0xf00'' ''c'')
            \<lparr>event = Some \<lparr>eventName = ''FooEvent'', params = [(''data'', VStr ''c'')]\<rparr>\<rparr>] \<and>
   event (rawlog.extend (test_log ''0xba2'' ''b'') \<lparr>event = None\<rparr>) = None"
proof -
  let ?raws = "[test_log ''0xf00'' ''a'', test_log ''0xba2'' ''b'', test_log ''0xf00'' ''c'']"
  let ?raws2 = "[test_log ''0xba2'' ''b'', test_log ''0xf00'' ''c'']"
  let ?req = "\<lparr>opt_fromBlock = None, opt_toBlock = None, opt_address = None\<rparr>"
  let ?a = "rawlog.extend (test_log ''0xf00'' ''a'')
      \<lparr>event = Some \<lparr>eventName = ''FooEvent'', params = [(''data'', VStr ''a'')]\<rparr>\<rparr>"
  let ?b = "rawlog.extend (test_log ''0xba2'' ''b'') \<lparr>event = None\<rparr>"
  let ?c = "rawlog.extend (test_log ''0xf00'' ''c'')
      \<lparr>event = Some \<lparr>eventName = ''FooEvent'', params = [(''data'', VStr ''c'')]\<rparr>\<rparr>"
  have run: "Contract_getLogs Methods (\<lambda>r. Inr ?raws) ?req = Inr [?a, ?b, ?c]"
    by (simp add: Contract_getLogs_def Methods_def decode_def foo_decoder_def test_log_def)
  have run2: "EventListener_getLogs foo_decoder (\<lambda>r. Inr ?raws2) ?req = Inr [?b, ?c]"
    by (simp add: EventListener_getLogs_def decode_def foo_decoder_def test_log_def)
  have unknown: "logDecoder Methods [?raws ! 1] = Inr []"
    by (simp add: Methods_def foo_decoder_def test_log_def)
  have unknown2: "foo_decoder [?raws2 ! 0] = Inr []"
    by (simp add: foo_decoder_def test_log_def)
  have all: "\<forall>i<length ?raws.
      (logDecoder Methods [?raws ! i] = Inr [] \<longrightarrow> event ([?a, ?b, ?c] ! i) = None) \<and>
      (\<forall>p ps. logDecoder Methods [?raws ! i] = Inr (p # ps) \<longrightarrow>
         event ([?a, ?b, ?c] ! i) = Some p)"
    using getLogs_keeps_unknown_events [where rpc = "\<lambda>r. Inr ?raws" and req = ?req
      and c = Methods and raws = ?raws and es = "[?a, ?b, ?c]"] run
    by blast
  have all2: "\<forall>i<length ?raws2.
      (foo_decoder [?raws2 ! i] = Inr [] \<longrightarrow> event ([?b, ?c] ! i) = None) \<and>
      (\<forall>p ps. foo_decoder [?raws2 ! i] = Inr (p # ps) \<longrightarrow> event ([?b, ?c] ! i) = Some p)"
    using getLogs_keeps_unknown_events [where rpc = "\<lambda>r. Inr ?raws2" and req = ?req
      and dec = foo_decoder and raws = ?raws2 and es = "[?b, ?c]"] run2
    by blast
  from all [rule_format, of 1] unknown have "event ([?a, ?b, ?c] ! 1) = None"
    by simp
  moreover from all2 [rule_format, of 0] unknown2 have "event ([?b, ?c] ! 0) = None"
    by simp
  ultimately show ?thesis using run run2 by simp
qed

section \<open>Properties of onLog\<close>

















subsection \<open>C2: deliveries after cancellation\<close>

text \<open>
  C2 says that nothing is handed to the callback once the cancel function has been
  invoked. The loop reads \<^verbatim>\<open>canceled\<close> only at its head. First run, of
  \<^verbatim>\<open>Contract.onLog\<close>, whose cancel function only sets the flag: no option is supplied,
  the head is at 5, the window is requested, the cancel function is invoked while the
  request is pending, and the request answers with two entries: both are handed to
  the callback with \<^verbatim>\<open>canceled\<close> already true. Second run, of either \<^verbatim>\<open>onLog\<close>: the
  callback itself cancels when it gets the first entry of a batch of two: the second
  entry is still handed over.
\<close>

theorem onLog_delivers_after_cancel:
  "map_option delivered
     (onLog_run (\<lambda>e. Reaction False False)
        (onLog \<lparr>opt_fromBlock = None, opt_toBlock = None, opt_address = None\<rparr>)
        [BlockNumber 5, Cancel, Logs [''e1'', ''e2'']])
   = Some [(''e1'', True), (''e2'', True)] \<and>
   map_option delivered
     (onLog_run (\<lambda>e. Reaction (e = ''e1'') False)
        (onLog \<lparr>opt_fromBlock = None, opt_toBlock = None, opt_address = None\<rparr>)
        [BlockNumber 5, Logs [''e1'', ''e2'']])
   = Some [(''e1'', False), (''e2'', True)]"
  by (simp add: onLog_def onLog_step_def or_latest_def js_gt_def js_eq_def loop_head_def
      Let_def)

subsection \<open>C4: the start of the window\<close>

text \<open>
  C4 says that a concrete \<^verbatim>\<open>fromBlock\<close>, height 0 included, makes the loop start its
  window there. With \<^verbatim>\<open>fromBlock: 0\<close> and the head at 7 the first window requested is
  from 7 to 7: the \<open>0\<close> is taken for a missing option, and nothing before block 7 is
  replayed. With \<^verbatim>\<open>fromBlock: 3\<close> the first window starts at 3.
\<close>

theorem onLog_fromBlock_zero:
  "map_option fetches
     (onLog_run (\<lambda>e::string. Reaction False False)
        (onLog \<lparr>opt_fromBlock = Some (Height 0), opt_toBlock = None, opt_address = None\<rparr>)
        [BlockNumber 7])
   = Some [(Height 7, Height 7)] \<and>
   map_option fetches
     (onLog_run (\<lambda>e::string. Reaction False False)
        (onLog \<lparr>opt_fromBlock = Some (Height 3), opt_toBlock = None, opt_address = None\<rparr>)
        [BlockNumber 7])
   = Some [(Height 3, Tag ''latest'')]"
  by (simp add: onLog_def onLog_step_def or_latest_def js_gt_def js_eq_def loop_head_def
      Let_def)

subsection \<open>C3: the upper bound of the window\<close>




section \<open>Properties of the method resolver\<close>






subsection \<open>C9: resolving overloads\<close>




end
